theory Spec2Isabelle
  imports Complex_Main
begin

section \<open>Computed parameters: the lazily recomputed wrapper\<close>

text \<open>
  The notebook \<^verbatim>\<open>hacks/computed_parameters.ipynb\<close> defines two classes,
  \<^verbatim>\<open>SpectralNormWeight\<close> and \<^verbatim>\<open>ComputedParameter\<close>, a loop that installs proxy
  methods on the second, and a replacement for \<^verbatim>\<open>torch.nn.Module.__setattr__\<close>.
  Calls into the framework (tensor kernels, the original \<^verbatim>\<open>__setattr__\<close>, the members
  of \<^verbatim>\<open>torch.Tensor\<close>) are parameters of the model; what the notebook's own code
  does with them is modelled as written.
\<close>

subsection \<open>Tensors with gradient hooks\<close>

text \<open>
  A tensor object as far as \<^verbatim>\<open>ComputedParameter\<close> uses it: its contents and the hooks
  registered on it by \<^verbatim>\<open>register_hook\<close>. The only hook the class registers is its own
  bound method \<^verbatim>\<open>require_update\<close>; a hook of any other owner is \<open>Foreign_hook\<close>.
\<close>

datatype hook = Require_update | Foreign_hook

record 't tensor_obj =
  data :: 't
  hooks :: "hook list"

definition register_hook :: "hook \<Rightarrow> 't tensor_obj \<Rightarrow> 't tensor_obj" where
  "register_hook h c = c\<lparr>hooks := hooks c @ [h]\<rparr>"

subsection \<open>The class ComputedParameter\<close>

text \<open>
  \<^verbatim>\<open>
  class ComputedParameter(torch.nn.Module):
      def __init__(self, m):
          super().__init__()
          self.m = m
          self.needs_update = True
          self.cache = None
          self.param_versions = None  # should we also treat buffers?
  \<close>
  The fields \<open>m\<close>, \<open>needs_update\<close>, \<open>cache\<close> and \<open>param_versions\<close> are the attributes of
  the source. The wrapped computation \<open>m\<close> is a callable object with a state of its own
  (\<open>m_state\<close>, for a \<^verbatim>\<open>SpectralNormWeight\<close> its buffers); calling it returns a tensor and
  the new state. \<open>parameters\<close> holds the counter \<^verbatim>\<open>p._version\<close> of every
  \<^verbatim>\<open>p in self.parameters()\<close>, in order. \<open>m_calls\<close> counts the invocations of \<open>m\<close>; the
  source has no such counter, it is there to state how often \<open>m\<close> runs.
\<close>

record ('t, 'e) computed_parameter =
  m :: "'e \<Rightarrow> 't tensor_obj \<times> 'e"
  m_state :: 'e
  m_calls :: nat
  needs_update :: bool
  cache :: "'t tensor_obj option"
  param_versions :: "nat list option"
  parameters :: "nat list"

definition init :: "('e \<Rightarrow> 't tensor_obj \<times> 'e) \<Rightarrow> 'e \<Rightarrow> nat list \<Rightarrow> ('t, 'e) computed_parameter" where
  "init f e vs =
     \<lparr>m = f, m_state = e, m_calls = 0, needs_update = True, cache = None,
      param_versions = None, parameters = vs\<rparr>"

text \<open>
  \<^verbatim>\<open>
      def require_update(self, *args):  # dummy args for use as hook
          self.needs_update = True
  \<close>
\<close>

definition require_update :: "('t, 'e) computed_parameter \<Rightarrow> ('t, 'e) computed_parameter" where
  "require_update s = s\<lparr>needs_update := True\<rparr>"

text \<open>
  \<^verbatim>\<open>
      def check_param_versions(self):
          if self.param_versions is None:
              self.require_update()
              return
          for p, v in zip(self.parameters(), self.param_versions):
              if p._version != v:
                  self.require_update()
                  return
  \<close>
\<close>

fun check_loop :: "(nat \<times> nat) list \<Rightarrow> ('t, 'e) computed_parameter \<Rightarrow> ('t, 'e) computed_parameter" where
  "check_loop [] s = s"
| "check_loop ((p, w) # rest) s = (if p \<noteq> w then require_update s else check_loop rest s)"

definition check_param_versions :: "('t, 'e) computed_parameter \<Rightarrow> ('t, 'e) computed_parameter" where
  "check_param_versions s =
     (case param_versions s of
        None \<Rightarrow> require_update s
      | Some ws \<Rightarrow> check_loop (zip (parameters s) ws) s)"

text \<open>
  \<^verbatim>\<open>
      def tensor(self):
          if self.needs_update:
              self.cache = self.m()
              self.cache.register_hook(self.require_update)
              self.param_versions = [p._version for p in self.parameters()]
          return self.cache
  \<close>
  The result is \<^verbatim>\<open>self.cache\<close>, which is \<^verbatim>\<open>None\<close> as long as nothing was computed.
  No statement of the method assigns \<^verbatim>\<open>needs_update\<close>. The calls of \<open>m\<close> and of
  \<^verbatim>\<open>register_hook\<close> are taken to return: the source raises nothing itself, and an
  exception of the framework (a hook on a tensor that requires no gradient) is outside
  the model. The result of \<open>m\<close> is taken to be a tensor that is no
  \<^verbatim>\<open>torch.nn.Parameter\<close>; assigning a \<^verbatim>\<open>Parameter\<close> to \<^verbatim>\<open>self.cache\<close> would add it to
  \<^verbatim>\<open>self.parameters()\<close>.
\<close>

definition tensor ::
  "('t, 'e) computed_parameter \<Rightarrow> 't tensor_obj option \<times> ('t, 'e) computed_parameter" where
  "tensor s =
     (if needs_update s then
        (case m s (m_state s) of (c, e') \<Rightarrow>
           let s1 = s\<lparr>cache := Some c, m_state := e', m_calls := m_calls s + 1\<rparr>;
               s2 = s1\<lparr>cache := map_option (register_hook Require_update) (cache s1)\<rparr>;
               s3 = s2\<lparr>param_versions := Some (parameters s2)\<rparr>
           in (cache s3, s3))
      else (cache s, s))"

text \<open>
  A backward pass through the cached tensor runs the hooks registered on it, in order.
  A hook of another owner does not touch this object.
\<close>

fun run_hook :: "hook \<Rightarrow> ('t, 'e) computed_parameter \<Rightarrow> ('t, 'e) computed_parameter" where
  "run_hook Require_update s = require_update s"
| "run_hook Foreign_hook s = s"

definition backward :: "('t, 'e) computed_parameter \<Rightarrow> ('t, 'e) computed_parameter" where
  "backward s = (case cache s of None \<Rightarrow> s | Some c \<Rightarrow> fold run_hook (hooks c) s)"

text \<open>
  An in-place update of the \<open>i\<close>-th watched parameter (an optimizer step) increments its
  version counter; the wrapped computation then sees a new state \<open>e'\<close>.
\<close>

definition mutate :: "nat \<Rightarrow> 'e \<Rightarrow> ('t, 'e) computed_parameter \<Rightarrow> ('t, 'e) computed_parameter" where
  "mutate i e' s = s\<lparr>parameters := (parameters s)[i := Suc (parameters s ! i)], m_state := e'\<rparr>"

text \<open>
  The states a \<^verbatim>\<open>ComputedParameter\<close> can be in: constructed by \<^verbatim>\<open>__init__\<close> and then
  driven by its methods, by backward passes and by parameter updates.
\<close>

inductive reach :: "('t, 'e) computed_parameter \<Rightarrow> bool" where
  reach_init: "reach (init f e vs)"
| reach_tensor: "reach s \<Longrightarrow> reach (snd (tensor s))"
| reach_require: "reach s \<Longrightarrow> reach (require_update s)"
| reach_check: "reach s \<Longrightarrow> reach (check_param_versions s)"
| reach_backward: "reach s \<Longrightarrow> reach (backward s)"
| reach_mutate: "reach s \<Longrightarrow> i < length (parameters s) \<Longrightarrow> reach (mutate i e' s)"

subsection \<open>The dispatch override\<close>

text \<open>
  \<^verbatim>\<open>
      @classmethod
      def __torch_function__(cls, func, types, args=(), kwargs=None):
          if kwargs is None:
              kwargs = {}
          args = tuple(a.tensor() if isinstance(a, ComputedParameter) else a for a in args)
          return func(*args, **kwargs)
  \<close>
  An argument is a \<^verbatim>\<open>ComputedParameter\<close> (named by the identity of the object), a
  tensor, \<^verbatim>\<open>None\<close>, or any other value. The objects live in a store indexed by
  identity, because \<^verbatim>\<open>a.tensor()\<close> updates the object \<open>a\<close>. The generator is consumed
  from left to right, so the calls of \<^verbatim>\<open>tensor()\<close> happen in the order of the
  arguments. \<open>cls\<close> and \<open>types\<close> are not used by the body and are left out.
\<close>

datatype ('t, 'o) arg = Computed nat | Tensor "'t tensor_obj" | PyNone | Other 'o

type_synonym ('t, 'e) store = "nat \<Rightarrow> ('t, 'e) computed_parameter"

fun of_result :: "'t tensor_obj option \<Rightarrow> ('t, 'o) arg" where
  "of_result None = PyNone"
| "of_result (Some c) = Tensor c"

fun convert_args ::
  "('t, 'o) arg list \<Rightarrow> ('t, 'e) store \<Rightarrow> ('t, 'o) arg list \<times> ('t, 'e) store" where
  "convert_args [] w = ([], w)"
| "convert_args (Computed i # rest) w =
     (case tensor (w i) of (r, s') \<Rightarrow>
        (case convert_args rest (w(i := s')) of (bs, w') \<Rightarrow> (of_result r # bs, w')))"
| "convert_args (a # rest) w =
     (case convert_args rest w of (bs, w') \<Rightarrow> (a # bs, w'))"

definition torch_function ::
  "(('t, 'o) arg list \<Rightarrow> (string \<times> ('t, 'o) arg) list \<Rightarrow> 'r) \<Rightarrow> ('t, 'o) arg list \<Rightarrow>
   (string \<times> ('t, 'o) arg) list option \<Rightarrow> ('t, 'e) store \<Rightarrow> 'r \<times> ('t, 'e) store" where
  "torch_function func args kwargs w =
     (let kwargs = (case kwargs of None \<Rightarrow> [] | Some kw \<Rightarrow> kw) in
      case convert_args args w of (args', w') \<Rightarrow> (func args' kwargs, w'))"

text \<open>
  The same in the words of the description: every positional argument that is a
  \<^verbatim>\<open>ComputedParameter\<close> is replaced by its \<^verbatim>\<open>tensor()\<close> value, every other argument
  is left as it is. \<open>tensor_calls args w\<close> is the store after the \<^verbatim>\<open>tensor()\<close> calls
  of the wrappers among \<open>args\<close>, in order; \<open>substituted args w i\<close> is what stands at
  position \<open>i\<close> afterwards, the value \<^verbatim>\<open>tensor()\<close> returns in the store the earlier
  arguments left. These three definitions are what \<open>convert_args\<close> is compared with.
\<close>

definition tensor_calls :: "('t, 'o) arg list \<Rightarrow> ('t, 'e) store \<Rightarrow> ('t, 'e) store" where
  "tensor_calls args w =
     fold (\<lambda>a w. case a of Computed c \<Rightarrow> w(c := snd (tensor (w c))) | _ \<Rightarrow> w) args w"

definition substituted :: "('t, 'o) arg list \<Rightarrow> ('t, 'e) store \<Rightarrow> nat \<Rightarrow> ('t, 'o) arg" where
  "substituted args w i =
     (case args ! i of
        Computed c \<Rightarrow> of_result (fst (tensor (tensor_calls (take i args) w c)))
      | a \<Rightarrow> a)"

definition spec_args :: "('t, 'o) arg list \<Rightarrow> ('t, 'e) store \<Rightarrow> ('t, 'o) arg list" where
  "spec_args args w = map (substituted args w) [0..<length args]"

subsection \<open>Proxy methods\<close>

text \<open>
  \<^verbatim>\<open>
  for name, member in inspect.getmembers(torch.Tensor):
      if not hasattr(ComputedParameter, name):
          if inspect.ismethoddescriptor(member):
              def get_proxy(name):
                  def new_fn(self, *args, **kwargs):
                      return getattr(self.tensor(), name)(*args, **kwargs)
                  return new_fn
              setattr(ComputedParameter, name, get_proxy(name))
  \<close>
  The members of \<^verbatim>\<open>torch.Tensor\<close> are the framework's; the loop sees of each its name
  and whether \<^verbatim>\<open>inspect.ismethoddescriptor\<close> holds of it. The class is a table from
  attribute names to what is bound there: \<open>Existing\<close> for an attribute the class has
  before the loop runs (its own or inherited from \<^verbatim>\<open>torch.nn.Module\<close>), \<open>Proxy name\<close>
  for a function made by \<^verbatim>\<open>get_proxy(name)\<close>.
\<close>

datatype member_kind = Method_descriptor | Python_function | Other_member

datatype class_attr = Existing | Proxy string

definition ismethoddescriptor :: "member_kind \<Rightarrow> bool" where
  "ismethoddescriptor member = (member = Method_descriptor)"

definition hasattr :: "(string \<rightharpoonup> class_attr) \<Rightarrow> string \<Rightarrow> bool" where
  "hasattr cls name = (cls name \<noteq> None)"

definition get_proxy :: "string \<Rightarrow> class_attr" where
  "get_proxy name = Proxy name"

fun install_proxies ::
  "(string \<times> member_kind) list \<Rightarrow> (string \<rightharpoonup> class_attr) \<Rightarrow> (string \<rightharpoonup> class_attr)" where
  "install_proxies [] cls = cls"
| "install_proxies ((name, member) # rest) cls =
     install_proxies rest
       (if \<not> hasattr cls name then
          (if ismethoddescriptor member then cls(name \<mapsto> get_proxy name) else cls)
        else cls)"

text \<open>
  \<open>new_fn\<close> is the body of a proxy: \<open>tensor_method name t\<close> stands for
  \<^verbatim>\<open>getattr(t, name)\<close> of the framework, applied to the arguments.
\<close>

definition new_fn ::
  "(string \<Rightarrow> 't tensor_obj option \<Rightarrow> 'a \<Rightarrow> 'k \<Rightarrow> 'r) \<Rightarrow> string \<Rightarrow>
   ('t, 'e) computed_parameter \<Rightarrow> 'a \<Rightarrow> 'k \<Rightarrow> 'r \<times> ('t, 'e) computed_parameter" where
  "new_fn tensor_method name s args kwargs =
     (case tensor s of (t, s') \<Rightarrow> (tensor_method name t args kwargs, s'))"

text \<open>
  Calling \<^verbatim>\<open>cp.name(*args, **kwargs)\<close> on an instance: a name the class does not bind
  raises \<^verbatim>\<open>AttributeError\<close>; an attribute the class had before the loop runs as it
  always did (that code is the framework's and is not modelled); a proxy runs \<open>new_fn\<close>.
\<close>

datatype 'r call_result = Attribute_error | Existing_attribute | Returned 'r

definition call_method ::
  "(string \<Rightarrow> 't tensor_obj option \<Rightarrow> 'a \<Rightarrow> 'k \<Rightarrow> 'r) \<Rightarrow> (string \<rightharpoonup> class_attr) \<Rightarrow> string \<Rightarrow>
   ('t, 'e) computed_parameter \<Rightarrow> 'a \<Rightarrow> 'k \<Rightarrow> 'r call_result \<times> ('t, 'e) computed_parameter" where
  "call_method tensor_method cls name s args kwargs =
     (case cls name of
        None \<Rightarrow> (Attribute_error, s)
      | Some Existing \<Rightarrow> (Existing_attribute, s)
      | Some (Proxy n) \<Rightarrow>
          (case new_fn tensor_method n s args kwargs of (r, s') \<Rightarrow> (Returned r, s')))"

section \<open>The replacement of Module.__setattr__\<close>

text \<open>
  \<^verbatim>\<open>
  def replace_setattr():
      # make old_setattr local..
      old_setattr = torch.nn.Module.__setattr__
      def new_setattr(self, n, v):
          oldval = getattr(self, n, 1)
          if isinstance(v, ComputedParameter) and oldval is None or isinstance(oldval, torch.nn.Parameter):
             delattr(self, n)
          old_setattr(self, n, v)
      torch.nn.Module.__setattr__ = new_setattr
  \<close>
  A module is its table of attributes. A value is \<^verbatim>\<open>None\<close>, a
  \<^verbatim>\<open>torch.nn.Parameter\<close>, a \<^verbatim>\<open>ComputedParameter\<close>, or anything else (the default \<open>1\<close> of
  \<^verbatim>\<open>getattr\<close> among them). In Python \<^verbatim>\<open>and\<close> binds tighter than \<^verbatim>\<open>or\<close>, so the
  condition reads \<^verbatim>\<open>(A and B) or C\<close>. \<open>old_setattr\<close> is the framework's method, captured
  by the closure: a parameter here.
\<close>

datatype 'a attr_value = Attr_None | Attr_Parameter 'a | Attr_ComputedParameter 'a | Attr_Other 'a | Attr_Int int

type_synonym 'a module = "string \<rightharpoonup> 'a attr_value"

definition getattr :: "'a module \<Rightarrow> string \<Rightarrow> 'a attr_value \<Rightarrow> 'a attr_value" where
  "getattr self n dflt = (case self n of None \<Rightarrow> dflt | Some x \<Rightarrow> x)"

definition delattr :: "'a module \<Rightarrow> string \<Rightarrow> 'a module" where
  "delattr self n = self(n := None)"

fun is_ComputedParameter :: "'a attr_value \<Rightarrow> bool" where
  "is_ComputedParameter (Attr_ComputedParameter x) = True"
| "is_ComputedParameter y = False"

fun is_Parameter :: "'a attr_value \<Rightarrow> bool" where
  "is_Parameter (Attr_Parameter x) = True"
| "is_Parameter y = False"

definition new_setattr ::
  "('a module \<Rightarrow> string \<Rightarrow> 'a attr_value \<Rightarrow> 'r) \<Rightarrow> 'a module \<Rightarrow> string \<Rightarrow> 'a attr_value \<Rightarrow> 'r" where
  "new_setattr old_setattr self n val =
     (let oldval = getattr self n (Attr_Int 1) in
      if (is_ComputedParameter val \<and> oldval = Attr_None) \<or> is_Parameter oldval
      then old_setattr (delattr self n) n val
      else old_setattr self n val)"

section \<open>Spectral normalisation by power iteration\<close>

subsection \<open>The tensor kernels\<close>

text \<open>
  The kernels \<^verbatim>\<open>forward\<close> calls are the framework's. They are a parameter of the model:
  a record of functions over scalars \<open>'s\<close>, vectors \<open>'x\<close>, matrices \<open>'a\<close> and weights of
  any rank \<open>'w\<close>. So what is proved of \<^verbatim>\<open>forward\<close> holds for every implementation of
  the kernels, floating point included.
  \<^item> \<open>mv A x\<close> is \<^verbatim>\<open>torch.mv(A, x)\<close>, \<open>t_mat A\<close> is \<^verbatim>\<open>A.t()\<close>, \<open>dot x y\<close> is
    \<^verbatim>\<open>torch.dot(x, y)\<close>;
  \<^item> \<open>normalize_vec e x\<close> is the value of
    \<^verbatim>\<open>torch.nn.functional.normalize(x, dim=0, eps=e)\<close>;
  \<^item> \<open>div_scalar A s\<close> is \<^verbatim>\<open>A / s\<close>, \<open>view shp A\<close> is \<^verbatim>\<open>A.view(shp)\<close> and
    \<open>transpose_dims i j W\<close> is \<^verbatim>\<open>W.transpose(i, j)\<close>.
\<close>

record ('s, 'x, 'a, 'w) torch_ops =
  mv :: "'a \<Rightarrow> 'x \<Rightarrow> 'x"
  t_mat :: "'a \<Rightarrow> 'a"
  dot :: "'x \<Rightarrow> 'x \<Rightarrow> 's"
  normalize_vec :: "'s \<Rightarrow> 'x \<Rightarrow> 'x"
  div_scalar :: "'a \<Rightarrow> 's \<Rightarrow> 'a"
  view :: "int list \<Rightarrow> 'a \<Rightarrow> 'w"
  transpose_dims :: "int \<Rightarrow> int \<Rightarrow> 'w \<Rightarrow> 'w"

subsection \<open>The class SpectralNormWeight\<close>

text \<open>
  \<^verbatim>\<open>
  class SpectralNormWeight(torch.nn.Module):
      def __init__(self, shape, dim=0, eps=1e-12, n_power_iterations=1):
          super().__init__()
          self.n_power_iterations = n_power_iterations
          self.eps = eps
          self.dim = dim
          self.shape = shape
          self.permuted_shape = (shape[dim],) + shape[:dim] + shape[dim+1:]
          h = shape[dim]
          w = numpy.prod(self.permuted_shape[1:])
          self.weight_mat = torch.nn.Parameter(torch.randn(h, w))
          self.register_buffer('u', torch.nn.functional.normalize(torch.randn(h), dim=0, eps=self.eps))
          self.register_buffer('v', torch.nn.functional.normalize(torch.randn(w), dim=0, eps=self.eps))
  \<close>
  The fields are the attributes the constructor sets: \<open>u\<close> and \<open>v\<close> are the contents
  of the two buffers, \<open>weight_mat\<close> the contents of the parameter; \<open>training\<close> is the
  mode flag every module inherits, which \<^verbatim>\<open>super().__init__()\<close> sets to \<^verbatim>\<open>True\<close>.
  \<open>shape\<close> is a tuple of integers and \<open>dim\<close> an integer, negative ones included.
  \<open>n_power_iterations\<close> is a natural number: \<^verbatim>\<open>range\<close> of a negative count is as
  empty as \<^verbatim>\<open>range(0)\<close>.
\<close>

record ('s, 'x, 'a) spectral_norm_weight =
  n_power_iterations :: nat
  eps :: 's
  dim :: int
  shape :: "int list"
  permuted_shape :: "int list"
  weight_mat :: 'a
  u :: 'x
  v :: 'x
  training :: bool

text \<open>
  Indexing and slicing a tuple as Python does: an index from \<open>-n\<close> up to \<open>n - 1\<close> is
  accepted, a negative one counting from the end, any other raises \<^verbatim>\<open>IndexError\<close>; a
  slice bound is clamped into \<open>0 .. n\<close>, a negative one after \<open>n\<close> is added to it.
\<close>

datatype py_error = IndexError | Raised_by_framework




text \<open>
  \<^verbatim>\<open>
      def forward(self):
          u = self.u
          v = self.v
          if self.training:
              with torch.no_grad():
                  for _ in range(self.n_power_iterations):
                      v = torch.nn.functional.normalize(torch.mv(self.weight_mat.t(), u), dim=0, eps=self.eps, out=v)
                      u = torch.nn.functional.normalize(torch.mv(self.weight_mat, v), dim=0, eps=self.eps, out=u)
                      # See above on why we need to clone
                      u = u.clone(memory_format=torch.contiguous_format)
                      v = v.clone(memory_format=torch.contiguous_format)
          sigma = torch.dot(u, torch.mv(self.weight_mat, v))
          weight = (self.weight_mat / sigma).view(self.permuted_shape)
          if self.dim != 0:
              weight = weight.transpose(0, self.dim)
          return weight
  \<close>
  The local variables \<^verbatim>\<open>u\<close> and \<^verbatim>\<open>v\<close> are references to tensor objects. A
  reference names one of the two buffers of the module, or a tensor no other name refers
  to (the result of \<^verbatim>\<open>clone\<close>), which is then given by its contents.
  \<^verbatim>\<open>normalize(..., out=r)\<close> writes its value into the object \<open>r\<close> refers to and returns
  that object.
\<close>

datatype 'x tensor_ref = Buffer_u | Buffer_v | Fresh 'x

fun read_ref :: "('s, 'x, 'a) spectral_norm_weight \<Rightarrow> 'x tensor_ref \<Rightarrow> 'x" where
  "read_ref st Buffer_u = u st"
| "read_ref st Buffer_v = v st"
| "read_ref st (Fresh x) = x"

fun write_out ::
  "('s, 'x, 'a) spectral_norm_weight \<Rightarrow> 'x tensor_ref \<Rightarrow> 'x \<Rightarrow>
   ('s, 'x, 'a) spectral_norm_weight \<times> 'x tensor_ref" where
  "write_out st Buffer_u x = (st\<lparr>u := x\<rparr>, Buffer_u)"
| "write_out st Buffer_v x = (st\<lparr>v := x\<rparr>, Buffer_v)"
| "write_out st (Fresh y) x = (st, Fresh x)"

definition clone :: "('s, 'x, 'a) spectral_norm_weight \<Rightarrow> 'x tensor_ref \<Rightarrow> 'x tensor_ref" where
  "clone st r = Fresh (read_ref st r)"

text \<open>One pass through the body of the loop, on the module and the two local references.\<close>

definition loop_body ::
  "('s, 'x, 'a, 'w) torch_ops \<Rightarrow>
   ('s, 'x, 'a) spectral_norm_weight \<times> 'x tensor_ref \<times> 'x tensor_ref \<Rightarrow>
   ('s, 'x, 'a) spectral_norm_weight \<times> 'x tensor_ref \<times> 'x tensor_ref" where
  "loop_body ops c =
     (case c of (st, lu, lv) \<Rightarrow>
        (case write_out st lv
                (normalize_vec ops (eps st) (mv ops (t_mat ops (weight_mat st)) (read_ref st lu)))
         of (st1, lv1) \<Rightarrow>
        (case write_out st1 lu
                (normalize_vec ops (eps st1) (mv ops (weight_mat st1) (read_ref st1 lv1)))
         of (st2, lu2) \<Rightarrow>
        (let lu3 = clone st2 lu2;
             lv3 = clone st2 lv1
         in (st2, lu3, lv3)))))"

fun power_loop ::
  "('s, 'x, 'a, 'w) torch_ops \<Rightarrow> nat \<Rightarrow>
   ('s, 'x, 'a) spectral_norm_weight \<times> 'x tensor_ref \<times> 'x tensor_ref \<Rightarrow>
   ('s, 'x, 'a) spectral_norm_weight \<times> 'x tensor_ref \<times> 'x tensor_ref" where
  "power_loop ops 0 c = c"
| "power_loop ops (Suc k) c = power_loop ops k (loop_body ops c)"

text \<open>
  The module and the local references at the line that computes \<^verbatim>\<open>sigma\<close>, then
  \<^verbatim>\<open>sigma\<close> itself, then the whole method: the weight it returns and the module it
  leaves behind.
\<close>

definition forward_locals ::
  "('s, 'x, 'a, 'w) torch_ops \<Rightarrow> ('s, 'x, 'a) spectral_norm_weight \<Rightarrow>
   ('s, 'x, 'a) spectral_norm_weight \<times> 'x tensor_ref \<times> 'x tensor_ref" where
  "forward_locals ops st =
     (if training st then power_loop ops (n_power_iterations st) (st, Buffer_u, Buffer_v)
      else (st, Buffer_u, Buffer_v))"

definition forward_sigma ::
  "('s, 'x, 'a, 'w) torch_ops \<Rightarrow> ('s, 'x, 'a) spectral_norm_weight \<Rightarrow> 's" where
  "forward_sigma ops st =
     (case forward_locals ops st of (st', lu, lv) \<Rightarrow>
        dot ops (read_ref st' lu) (mv ops (weight_mat st') (read_ref st' lv)))"

definition forward ::
  "('s, 'x, 'a, 'w) torch_ops \<Rightarrow> ('s, 'x, 'a) spectral_norm_weight \<Rightarrow>
   'w \<times> ('s, 'x, 'a) spectral_norm_weight" where
  "forward ops st =
     (case forward_locals ops st of (st', lu, lv) \<Rightarrow>
        (let sigma = dot ops (read_ref st' lu) (mv ops (weight_mat st') (read_ref st' lv));
             weight = view ops (permuted_shape st') (div_scalar ops (weight_mat st') sigma);
             weight = (if dim st' \<noteq> 0 then transpose_dims ops 0 (dim st') weight else weight)
         in (weight, st')))"

subsection \<open>Power iteration as the notebook's text gives it\<close>

text \<open>
  The text of the notebook: starting from \<open>u\<close> and \<open>v\<close>, iterate
  \<open>v = A\<^sup>T u / |A\<^sup>T u|\<close>, \<open>u = A v / |A v|\<close>; then \<open>u\<^sup>T A v\<close> estimates the spectral
  norm. These two definitions follow that text, on values, with no references and no
  module. They are what \<^verbatim>\<open>forward\<close> is compared with.
\<close>

definition spec_step ::
  "('s, 'x, 'a, 'w) torch_ops \<Rightarrow> 'a \<Rightarrow> 's \<Rightarrow> 'x \<times> 'x \<Rightarrow> 'x \<times> 'x" where
  "spec_step ops A e p =
     (let v' = normalize_vec ops e (mv ops (t_mat ops A) (fst p));
          u' = normalize_vec ops e (mv ops A v')
      in (u', v'))"

definition spec_sigma :: "('s, 'x, 'a, 'w) torch_ops \<Rightarrow> 'a \<Rightarrow> 'x \<times> 'x \<Rightarrow> 's" where
  "spec_sigma ops A p = dot ops (fst p) (mv ops A (snd p))"

section \<open>Concrete instances\<close>

text \<open>
  Small concrete objects, on which the theorems below are exercised.
  \<open>demo_m\<close> is a computation that returns its state as a tensor and counts up;
  \<open>demo_cp\<close> is a wrapper of it, watching two parameters, after one call of
  \<^verbatim>\<open>tensor()\<close>.
\<close>

definition demo_m :: "nat \<Rightarrow> nat tensor_obj \<times> nat" where
  "demo_m e = (\<lparr>data = e, hooks = []\<rparr>, Suc e)"

definition demo_cp :: "(nat, nat) computed_parameter" where
  "demo_cp = snd (tensor (init demo_m 3 [0, 0]))"


text \<open>A store in which every object is a copy of \<open>demo_cp\<close>.\<close>

definition demo_store :: "(nat, nat) store" where
  "demo_store = (\<lambda>i. demo_cp)"

text \<open>
  Four members of \<^verbatim>\<open>torch.Tensor\<close> as \<^verbatim>\<open>inspect.getmembers\<close> lists them:
  \<^verbatim>\<open>abs\<close> and \<^verbatim>\<open>float\<close> are method descriptors, \<^verbatim>\<open>backward\<close> is a function
  written in Python, \<^verbatim>\<open>shape\<close> is a property. \<open>demo_class\<close> holds two of the
  attributes \<^verbatim>\<open>ComputedParameter\<close> has before the loop: \<^verbatim>\<open>float\<close>, inherited from
  \<^verbatim>\<open>torch.nn.Module\<close>, and its own \<^verbatim>\<open>tensor\<close>. \<open>demo_method\<close> stands for a method
  of the cached tensor: it returns its name and the contents of the tensor.
  \<open>demo_args\<close> are positional arguments naming the same wrapper twice.
\<close>

definition demo_members :: "(string \<times> member_kind) list" where
  "demo_members =
     [(''abs'', Method_descriptor), (''backward'', Python_function),
      (''float'', Method_descriptor), (''shape'', Other_member)]"

definition demo_class :: "string \<rightharpoonup> class_attr" where
  "demo_class = [''float'' \<mapsto> Existing, ''tensor'' \<mapsto> Existing]"

definition demo_method :: "string \<Rightarrow> nat tensor_obj option \<Rightarrow> unit \<Rightarrow> unit \<Rightarrow> string \<times> nat option" where
  "demo_method name t args kwargs = (name, map_option data t)"

definition demo_args :: "(nat, int) arg list" where
  "demo_args = [Computed 0, Other 5, Computed 0]"

text \<open>
  The kernels on real numbers, with vectors as lists and matrices as lists of rows:
  \<open>normalize_vec e x\<close> is \<open>x\<close> divided by \<open>max (l2norm x) e\<close>, as the framework
  documents it. Reals stand in for the floating-point numbers of the framework; the
  theorems about \<^verbatim>\<open>forward\<close> do not depend on this instance. \<open>view\<close> keeps the matrix
  (the instance is for weights of rank two and \<open>dim = 0\<close>). \<open>demo_snw A n tr\<close> is a
  module for a weight of shape \<open>(2, 2)\<close> with the default \<open>eps\<close>, holding the matrix
  \<open>A\<close> and the vectors \<open>u = v = (1, 0)\<close>.
\<close>

definition l2norm :: "real list \<Rightarrow> real" where
  "l2norm x = sqrt (sum_list (map (\<lambda>a. a * a) x))"

definition real_ops :: "(real, real list, real list list, real list list) torch_ops" where
  "real_ops =
     \<lparr>mv = (\<lambda>A x. map (\<lambda>row. sum_list (map2 (*) row x)) A),
      t_mat = transpose,
      dot = (\<lambda>x y. sum_list (map2 (*) x y)),
      normalize_vec = (\<lambda>e x. map (\<lambda>a. a / max (l2norm x) e) x),
      div_scalar = (\<lambda>A s. map (map (\<lambda>a. a / s)) A),
      view = (\<lambda>shp A. A),
      transpose_dims = (\<lambda>i j W. if i = j then W else transpose W)\<rparr>"

definition demo_snw ::
  "real list list \<Rightarrow> nat \<Rightarrow> bool \<Rightarrow> (real, real list, real list list) spectral_norm_weight" where
  "demo_snw A n tr =
     \<lparr>n_power_iterations = n, eps = 1 / 10 ^ 12, dim = 0, shape = [2, 2],
      permuted_shape = [2, 2], weight_mat = A, u = [1, 0], v = [1, 0],
      training = tr\<rparr>"

section \<open>Properties of the cache\<close>

lemma check_loop_needs_update:
  "needs_update s \<Longrightarrow> needs_update (check_loop ps s)"
  by (induction ps s rule: check_loop.induct) (simp_all add: require_update_def)

lemma fold_run_hook_needs_update:
  "needs_update s \<Longrightarrow> needs_update (fold run_hook hs s)"
proof (induction hs arbitrary: s)
  case Nil
  then show ?case by simp
next
  case (Cons h hs)
  then show ?case by (cases h) (simp_all add: require_update_def)
qed

lemma reach_needs_update: "reach s \<Longrightarrow> needs_update s"
proof (induction rule: reach.induct)
  case (reach_tensor s)
  then show ?case by (simp add: tensor_def split: prod.splits)
next
  case (reach_check s)
  then show ?case
    by (simp add: check_param_versions_def require_update_def check_loop_needs_update
        split: option.splits)
next
  case (reach_backward s)
  then show ?case
    by (simp add: backward_def fold_run_hook_needs_update split: option.splits)
qed (simp_all add: init_def require_update_def mutate_def)

lemma tensor_computes:
  "needs_update s \<Longrightarrow>
   tensor s =
     (Some (register_hook Require_update (fst (m s (m_state s)))),
      s\<lparr>cache := Some (register_hook Require_update (fst (m s (m_state s)))),
        m_state := snd (m s (m_state s)), m_calls := Suc (m_calls s),
        param_versions := Some (parameters s)\<rparr>)"
  by (simp add: tensor_def Let_def split: prod.splits)

lemma reach_tensor_calls: "reach s \<Longrightarrow> m_calls (snd (tensor s)) = Suc (m_calls s)"
  by (simp add: reach_needs_update tensor_computes)

text \<open>
  Claim C1, on the code: a wrapper that has just been constructed is asked twice for its
  tensor, with nothing in between (no parameter changes, no backward pass). After the
  first call a value is cached and the recorded versions are those of the parameters.
  The second call still invokes \<open>m\<close>: it has then run twice, and the second result is
  computed from the state the first run left, not taken from the cache.
\<close>

theorem tensor_twice_invokes_m_twice:
  "cache (snd (tensor (init f e vs))) = Some (register_hook Require_update (fst (f e))) \<and>
   param_versions (snd (tensor (init f e vs))) = Some (parameters (snd (tensor (init f e vs)))) \<and>
   m_calls (snd (tensor (init f e vs))) = 1 \<and>
   m_calls (snd (tensor (snd (tensor (init f e vs))))) = 2 \<and>
   fst (tensor (snd (tensor (init f e vs)))) =
     Some (register_hook Require_update (fst (f (snd (f e)))))"
  by (simp add: tensor_def init_def Let_def split: prod.splits)



lemma demo_cp_eq: "demo_cp = \<lparr>m = demo_m, m_state = 4, m_calls = 1, needs_update = True,
   cache = Some \<lparr>data = 3, hooks = [Require_update]\<rparr>, param_versions = Some [0, 0], parameters = [0, 0]\<rparr>"
  by (simp add: demo_cp_def tensor_def init_def demo_m_def register_hook_def)




lemma fold_run_hook_require:
  "Require_update \<in> set hs \<Longrightarrow> needs_update (fold run_hook hs s)"
proof (induction hs arbitrary: s)
  case Nil
  then show ?case by simp
next
  case (Cons h hs)
  show ?case
  proof (cases h)
    case Require_update
    then show ?thesis
      by (simp add: require_update_def fold_run_hook_needs_update)
  next
    case Foreign_hook
    with Cons show ?thesis by simp
  qed
qed

lemma fold_run_hook_frame:
  "fold run_hook hs s = s\<lparr>needs_update := needs_update (fold run_hook hs s)\<rparr>"
proof (induction hs arbitrary: s)
  case Nil
  then show ?case by simp
next
  case (Cons h hs)
  show ?case
  proof (cases h)
    case Require_update
    have "fold run_hook hs (require_update s) =
          (require_update s)\<lparr>needs_update := needs_update (fold run_hook hs (require_update s))\<rparr>"
      by (rule Cons.IH)
    then show ?thesis using Require_update by (simp add: require_update_def)
  next
    case Foreign_hook
    with Cons.IH[of s] show ?thesis by simp
  qed
qed

lemma backward_frame: "backward s = s\<lparr>needs_update := needs_update (backward s)\<rparr>"
proof (cases "cache s")
  case None
  then show ?thesis by (simp add: backward_def)
next
  case (Some c)
  then show ?thesis using fold_run_hook_frame[of "hooks c" s] by (simp add: backward_def)
qed

text \<open>
  Claim C3: \<^verbatim>\<open>tensor()\<close> computes a value (the flag was set), so the tensor it caches
  and returns carries the hook \<^verbatim>\<open>require_update\<close>. When a backward pass then goes
  through the cached tensor, the hook sets \<^verbatim>\<open>needs_update\<close>, even from a state where
  the flag were \<^verbatim>\<open>False\<close>, and the next call of \<^verbatim>\<open>tensor()\<close> invokes \<open>m\<close> once more
  and returns its new result.
\<close>

theorem backward_hook_recomputes:
  assumes "needs_update s0" and "tensor s0 = (r, s)"
  shows "(\<exists>c. r = Some c \<and> cache s = Some c \<and> Require_update \<in> set (hooks c)) \<and>
         needs_update (backward (s\<lparr>needs_update := False\<rparr>)) \<and>
         m_calls (snd (tensor (backward (s\<lparr>needs_update := False\<rparr>)))) = Suc (m_calls s) \<and>
         fst (tensor (backward (s\<lparr>needs_update := False\<rparr>))) =
           Some (register_hook Require_update (fst (m s (m_state s))))"
proof -
  let ?c = "register_hook Require_update (fst (m s0 (m_state s0)))"
  let ?s' = "s\<lparr>needs_update := False\<rparr>"
  from assms have r: "r = Some ?c" and c: "cache s = Some ?c"
    and ms: "m s = m s0" "m_state s = snd (m s0 (m_state s0))"
    by (auto simp add: tensor_computes)
  have h: "Require_update \<in> set (hooks ?c)" by (simp add: register_hook_def)
  have "backward ?s' = fold run_hook (hooks ?c) ?s'"
    using c by (simp add: backward_def)
  with h have flag: "needs_update (backward ?s')"
    by (simp add: fold_run_hook_require)
  have same: "backward ?s' = ?s'\<lparr>needs_update := True\<rparr>"
    using backward_frame[of ?s'] flag by simp
  have "m_calls (backward ?s') = m_calls s" "m (backward ?s') = m s"
    "m_state (backward ?s') = m_state s"
    by (simp_all add: same)
  with flag r c h show ?thesis by (simp add: tensor_computes)
qed

theorem backward_hook_recomputes_witness:
  "needs_update (init demo_m 3 [0, 0]) \<and>
   tensor (init demo_m 3 [0, 0]) = (Some \<lparr>data = 3, hooks = [Require_update]\<rparr>, demo_cp) \<and>
   needs_update (backward (demo_cp\<lparr>needs_update := False\<rparr>)) \<and>
   m_calls (snd (tensor (backward (demo_cp\<lparr>needs_update := False\<rparr>)))) = 2 \<and>
   fst (tensor (backward (demo_cp\<lparr>needs_update := False\<rparr>))) =
     Some \<lparr>data = 4, hooks = [Require_update]\<rparr>"
proof -
  have a: "needs_update (init demo_m 3 [0, 0])" by (simp add: init_def)
  have b: "tensor (init demo_m 3 [0, 0]) = (Some \<lparr>data = 3, hooks = [Require_update]\<rparr>, demo_cp)"
    by (simp add: demo_cp_eq tensor_def init_def demo_m_def register_hook_def)
  from backward_hook_recomputes[OF a b] a b show ?thesis
    by (simp add: demo_cp_eq demo_m_def register_hook_def)
qed

section \<open>Properties of the dispatch override\<close>

lemma tensor_calls_Nil: "tensor_calls [] w = w"
  by (simp add: tensor_calls_def)

lemma tensor_calls_Cons:
  "tensor_calls (a # rest) w =
     tensor_calls rest (case a of Computed c \<Rightarrow> w(c := snd (tensor (w c))) | _ \<Rightarrow> w)"
  by (simp add: tensor_calls_def)

lemma substituted_Suc:
  "substituted (a # rest) w (Suc i) =
     substituted rest (case a of Computed c \<Rightarrow> w(c := snd (tensor (w c))) | _ \<Rightarrow> w) i"
  by (simp add: substituted_def tensor_calls_Cons split: arg.splits)

lemma spec_args_Cons:
  "spec_args (a # rest) w =
     substituted (a # rest) w 0 #
     spec_args rest (case a of Computed c \<Rightarrow> w(c := snd (tensor (w c))) | _ \<Rightarrow> w)"
proof -
  have "[0..<length (a # rest)] = 0 # map Suc [0..<length rest]"
    by (simp add: upt_conv_Cons map_Suc_upt del: upt_Suc)
  then show ?thesis
    by (simp add: spec_args_def substituted_Suc comp_def del: upt_Suc)
qed

lemma convert_args_spec:
  "convert_args args w = (spec_args args w, tensor_calls args w)"
proof (induction args arbitrary: w)
  case Nil
  then show ?case by (simp add: spec_args_def tensor_calls_def)
next
  case (Cons a rest)
  show ?case
  proof (cases a)
    case (Computed i)
    obtain r s' where t: "tensor (w i) = (r, s')" by (cases "tensor (w i)")
    have ih: "convert_args rest (w(i := s')) =
        (spec_args rest (w(i := s')), tensor_calls rest (w(i := s')))"
      by (rule Cons.IH)
    show ?thesis unfolding Computed
      by (simp add: t ih spec_args_Cons tensor_calls_Cons tensor_calls_Nil substituted_def)
  next
    case (Tensor x)
    with Cons.IH[of w] show ?thesis
      by (simp add: spec_args_Cons tensor_calls_Cons substituted_def)
  next
    case PyNone
    with Cons.IH[of w] show ?thesis
      by (simp add: spec_args_Cons tensor_calls_Cons substituted_def)
  next
    case (Other x)
    with Cons.IH[of w] show ?thesis
      by (simp add: spec_args_Cons tensor_calls_Cons substituted_def)
  qed
qed

text \<open>
  Claim C7: \<^verbatim>\<open>__torch_function__\<close> returns the result of \<open>func\<close> on the positional
  arguments in which every \<^verbatim>\<open>ComputedParameter\<close> is replaced by its \<^verbatim>\<open>tensor()\<close>
  value and every other argument is unchanged, together with the keyword arguments
  (none when \<^verbatim>\<open>kwargs\<close> is \<^verbatim>\<open>None\<close>); the wrappers are left as their
  \<^verbatim>\<open>tensor()\<close> calls leave them.
\<close>

theorem torch_function_substitutes:
  "torch_function func args kwargs w =
     (func (spec_args args w) (case kwargs of None \<Rightarrow> [] | Some kw \<Rightarrow> kw), tensor_calls args w)"
  by (simp add: torch_function_def convert_args_spec)

theorem torch_function_substitutes_witness:
  "torch_function Pair demo_args None demo_store =
     (([Tensor \<lparr>data = 4, hooks = [Require_update]\<rparr>, Other 5,
        Tensor \<lparr>data = 5, hooks = [Require_update]\<rparr>], []),
      tensor_calls demo_args demo_store)"
proof -
  have "spec_args demo_args demo_store =
      [Tensor \<lparr>data = 4, hooks = [Require_update]\<rparr>, Other 5,
       Tensor \<lparr>data = 5, hooks = [Require_update]\<rparr>]"
    by (simp add: spec_args_def substituted_def tensor_calls_def demo_store_def demo_cp_eq
        tensor_def demo_m_def register_hook_def upt_rec demo_args_def)
  with torch_function_substitutes[of Pair demo_args None demo_store]
  show ?thesis by simp
qed

lemma tensor_calls_untouched:
  "Computed c \<notin> set args \<Longrightarrow> tensor_calls args w c = w c"
proof (induction args arbitrary: w)
  case Nil
  then show ?case by (simp add: tensor_calls_def)
next
  case (Cons a rest)
  then show ?case by (cases a) (simp_all add: tensor_calls_Cons)
qed

text \<open>
  Claim C10: the keyword arguments reach \<open>func\<close> exactly as they were passed, a
  \<^verbatim>\<open>ComputedParameter\<close> among them included: \<open>func\<close> is applied to the converted
  positional arguments and to \<open>kw\<close> itself, and a wrapper that is not among the
  positional arguments is not touched (its \<^verbatim>\<open>tensor()\<close> is not called).
\<close>

theorem keyword_arguments_unconverted:
  "snd (fst (torch_function Pair args (Some kw) w)) = kw \<and>
   fst (torch_function func args (Some kw) w) =
     func (fst (fst (torch_function Pair args (Some kw) w))) kw \<and>
   (Computed c \<notin> set args \<longrightarrow> snd (torch_function func args (Some kw) w) c = w c)"
  by (simp add: torch_function_def convert_args_spec tensor_calls_untouched)

theorem keyword_arguments_unconverted_witness:
  "Computed 1 \<notin> set [Computed 0, Other (5::int)] \<and>
   snd (fst (torch_function Pair [Computed 0, Other (5::int)] (Some [(''other'', Computed 1)]) demo_store))
     = [(''other'', Computed 1)] \<and>
   snd (torch_function Pair [Computed 0, Other (5::int)] (Some [(''other'', Computed 1)]) demo_store) 1
     = demo_cp"
  using keyword_arguments_unconverted[of "[Computed 0, Other (5::int)]" "[(''other'', Computed 1)]"
      demo_store Pair 1]
  by (simp add: demo_store_def)

section \<open>Properties of the proxy methods\<close>

lemma install_proxies_existing:
  "cls name = Some x \<Longrightarrow> install_proxies members cls name = Some x"
proof (induction members arbitrary: cls)
  case Nil
  then show ?case by simp
next
  case (Cons a members)
  obtain n k where a: "a = (n, k)" by (cases a)
  show ?case unfolding a
    using Cons.prems
    by (auto simp add: hasattr_def intro!: Cons.IH)
qed

lemma install_proxies_method:
  "cls name = None \<Longrightarrow> (name, Method_descriptor) \<in> set members \<Longrightarrow>
   install_proxies members cls name = Some (Proxy name)"
proof (induction members arbitrary: cls)
  case Nil
  then show ?case by simp
next
  case (Cons a members)
  obtain n k where a: "a = (n, k)" by (cases a)
  show ?case
  proof (cases "n = name \<and> k = Method_descriptor")
    case True
    with Cons.prems(1) show ?thesis unfolding a
      by (simp add: hasattr_def ismethoddescriptor_def get_proxy_def install_proxies_existing)
  next
    case False
    with Cons.prems a have mem: "(name, Method_descriptor) \<in> set members" by auto
    have "install_proxies (a # members) cls name =
          install_proxies members
            (if \<not> hasattr cls n then (if ismethoddescriptor k then cls(n \<mapsto> get_proxy n) else cls)
             else cls) name"
      unfolding a by simp
    also have "\<dots> = Some (Proxy name)"
    proof (cases "n = name")
      case True
      with False have "k \<noteq> Method_descriptor" by simp
      then show ?thesis using Cons.prems(1) mem
        by (simp add: ismethoddescriptor_def Cons.IH)
    next
      case False
      then show ?thesis using Cons.prems(1) mem
        by (auto simp add: hasattr_def intro!: Cons.IH)
    qed
    finally show ?thesis .
  qed
qed

lemma install_proxies_absent:
  "cls name = None \<Longrightarrow> (name, Method_descriptor) \<notin> set members \<Longrightarrow>
   install_proxies members cls name = None"
proof (induction members arbitrary: cls)
  case Nil
  then show ?case by simp
next
  case (Cons a members)
  obtain n k where a: "a = (n, k)" by (cases a)
  show ?case unfolding a
    using Cons.prems a
    by (auto simp add: hasattr_def ismethoddescriptor_def intro!: Cons.IH)
qed

text \<open>
  Claim C6, as the code has it: the loop leaves every attribute the class already has
  as it is; a name the class does not have and that is a method descriptor of
  \<^verbatim>\<open>torch.Tensor\<close> becomes a proxy, and calling it returns what the method of that
  name returns on \<^verbatim>\<open>self.tensor()\<close> with the same arguments, leaving the wrapper as
  \<^verbatim>\<open>tensor()\<close> leaves it; a name the class does not have and that is no method
  descriptor among the members stays unbound.
\<close>

theorem proxies_for_new_method_descriptors:
  "(cls name = Some x \<longrightarrow> install_proxies members cls name = Some x) \<and>
   (cls name = None \<and> (name, Method_descriptor) \<in> set members \<longrightarrow>
      call_method tensor_method (install_proxies members cls) name s args kwargs =
        (Returned (tensor_method name (fst (tensor s)) args kwargs), snd (tensor s))) \<and>
   (cls name = None \<and> (name, Method_descriptor) \<notin> set members \<longrightarrow>
      call_method tensor_method (install_proxies members cls) name s args kwargs =
        (Attribute_error, s))"
  by (simp add: install_proxies_existing install_proxies_method install_proxies_absent
      call_method_def new_fn_def split: prod.splits)

lemma demo_installed:
  "install_proxies demo_members demo_class ''abs'' = Some (Proxy ''abs'')"
  "install_proxies demo_members demo_class ''float'' = Some Existing"
  "install_proxies demo_members demo_class ''backward'' = None"
  by (simp_all add: demo_members_def demo_class_def hasattr_def ismethoddescriptor_def
      get_proxy_def)

text \<open>
  Claim C6 as stated fails: \<^verbatim>\<open>float\<close> is a method of \<^verbatim>\<open>torch.Tensor\<close>, but the class
  has an attribute of that name already, so no proxy is installed and the call does not
  go to the cached tensor; \<^verbatim>\<open>backward\<close> is a method written in Python, no method
  descriptor, and is not available at all.
\<close>

theorem not_every_method_is_proxied:
  "call_method demo_method (install_proxies demo_members demo_class) ''float'' demo_cp () () =
     (Existing_attribute, demo_cp) \<and>
   call_method demo_method (install_proxies demo_members demo_class) ''backward'' demo_cp () () =
     (Attribute_error, demo_cp) \<and>
   call_method demo_method (install_proxies demo_members demo_class) ''float'' demo_cp () () \<noteq>
     (Returned (demo_method ''float'' (fst (tensor demo_cp)) () ()), snd (tensor demo_cp))"
  by (simp add: call_method_def demo_installed)

theorem proxies_for_new_method_descriptors_witness:
  "demo_class ''float'' = Some Existing \<and>
   install_proxies demo_members demo_class ''float'' = Some Existing \<and>
   demo_class ''abs'' = None \<and> (''abs'', Method_descriptor) \<in> set demo_members \<and>
   call_method demo_method (install_proxies demo_members demo_class) ''abs'' demo_cp () () =
     (Returned (''abs'', Some 4), snd (tensor demo_cp)) \<and>
   demo_class ''backward'' = None \<and> (''backward'', Method_descriptor) \<notin> set demo_members \<and>
   call_method demo_method (install_proxies demo_members demo_class) ''backward'' demo_cp () () =
     (Attribute_error, demo_cp)"
proof -
  have a: "demo_class ''float'' = Some Existing" "demo_class ''abs'' = None"
    "demo_class ''backward'' = None"
    by (simp_all add: demo_class_def)
  have b: "(''abs'', Method_descriptor) \<in> set demo_members"
    "(''backward'', Method_descriptor) \<notin> set demo_members"
    by (simp_all add: demo_members_def)
  have c: "fst (tensor demo_cp) = Some \<lparr>data = 4, hooks = [Require_update]\<rparr>"
    by (simp add: demo_cp_eq tensor_def demo_m_def register_hook_def)
  from proxies_for_new_method_descriptors[of demo_class "''float''" Existing demo_members
      demo_method demo_cp "()" "()"]
    proxies_for_new_method_descriptors[of demo_class "''abs''" Existing demo_members
      demo_method demo_cp "()" "()"]
    proxies_for_new_method_descriptors[of demo_class "''backward''" Existing demo_members
      demo_method demo_cp "()" "()"]
    a b c
  show ?thesis by (simp add: demo_method_def)
qed

section \<open>Properties of the replaced __setattr__\<close>

lemma new_setattr_cases:
  "new_setattr old_setattr self n val =
     (if (is_ComputedParameter val \<and> self n = Some Attr_None) \<or>
         (\<exists>p. self n = Some (Attr_Parameter p))
      then old_setattr (delattr self n) n val
      else old_setattr self n val)"
proof (cases "self n")
  case None
  then show ?thesis by (simp add: new_setattr_def getattr_def)
next
  case (Some x)
  then show ?thesis by (cases x) (simp_all add: new_setattr_def getattr_def)
qed

text \<open>
  Claim C5, on the code: the attribute \<^verbatim>\<open>weight\<close> holds a \<^verbatim>\<open>Parameter\<close>. Assigning a
  value that is no \<^verbatim>\<open>ComputedParameter\<close> (a plain value, \<^verbatim>\<open>None\<close>, another
  \<^verbatim>\<open>Parameter\<close>) still deletes the attribute first: when the original
  \<^verbatim>\<open>__setattr__\<close> runs, the module has no \<^verbatim>\<open>weight\<close> any more.
\<close>

theorem new_setattr_deletes_for_any_value:
  "\<not> is_ComputedParameter (Attr_Other x) \<and>
   new_setattr (\<lambda>self n val. (self n, val)) [''weight'' \<mapsto> Attr_Parameter p] ''weight'' (Attr_Other x)
     = (None, Attr_Other x) \<and>
   new_setattr (\<lambda>self n val. (self n, val)) [''weight'' \<mapsto> Attr_Parameter p] ''weight'' Attr_None
     = (None, Attr_None) \<and>
   new_setattr (\<lambda>self n val. (self n, val)) [''weight'' \<mapsto> Attr_Parameter p] ''weight'' (Attr_Parameter q)
     = (None, Attr_Parameter q)"
  by (simp add: new_setattr_def getattr_def delattr_def)

lemma new_setattr_splices:
  "is_ComputedParameter val \<Longrightarrow> self n = Some Attr_None \<or> self n = Some (Attr_Parameter p) \<Longrightarrow>
   new_setattr old_setattr self n val = old_setattr (delattr self n) n val"
  by (auto simp add: new_setattr_cases)

lemma new_setattr_keeps:
  "self n \<noteq> Some Attr_None \<Longrightarrow> \<not> is_Parameter (getattr self n (Attr_Int 1)) \<Longrightarrow>
   new_setattr old_setattr self n val = old_setattr self n val"
  by (auto simp add: new_setattr_def getattr_def split: option.splits)

section \<open>Properties of the power iteration\<close>


lemma funpow_unroll: "(f ^^ Suc k) x = (f ^^ k) (f x)"
  by (simp add: funpow_swap1)

lemma loop_body_buffers:
  "loop_body ops (st, Buffer_u, Buffer_v) =
     (st\<lparr>v := snd (spec_step ops (weight_mat st) (eps st) (u st, v st)),
         u := fst (spec_step ops (weight_mat st) (eps st) (u st, v st))\<rparr>,
      Fresh (fst (spec_step ops (weight_mat st) (eps st) (u st, v st))),
      Fresh (snd (spec_step ops (weight_mat st) (eps st) (u st, v st))))"
  by (simp add: loop_body_def spec_step_def clone_def Let_def)

lemma loop_body_fresh:
  "loop_body ops (st, Fresh x, Fresh y) =
     (st, Fresh (fst (spec_step ops (weight_mat st) (eps st) (x, y))),
          Fresh (snd (spec_step ops (weight_mat st) (eps st) (x, y))))"
  by (simp add: loop_body_def spec_step_def clone_def Let_def)

lemma power_loop_fresh:
  "power_loop ops k (st, Fresh x, Fresh y) =
     (st, Fresh (fst ((spec_step ops (weight_mat st) (eps st) ^^ k) (x, y))),
          Fresh (snd ((spec_step ops (weight_mat st) (eps st) ^^ k) (x, y))))"
proof (induction k arbitrary: x y)
  case 0
  then show ?case by simp
next
  case (Suc k)
  show ?case
    by (simp add: loop_body_fresh Suc.IH funpow_unroll del: funpow.simps)
qed

lemma power_loop_buffers:
  "power_loop ops (Suc k) (st, Buffer_u, Buffer_v) =
     (st\<lparr>v := snd (spec_step ops (weight_mat st) (eps st) (u st, v st)),
         u := fst (spec_step ops (weight_mat st) (eps st) (u st, v st))\<rparr>,
      Fresh (fst ((spec_step ops (weight_mat st) (eps st) ^^ Suc k) (u st, v st))),
      Fresh (snd ((spec_step ops (weight_mat st) (eps st) ^^ Suc k) (u st, v st))))"
  by (simp add: loop_body_buffers power_loop_fresh funpow_unroll del: funpow.simps)

lemma forward_locals_values:
  "read_ref (fst (forward_locals ops st)) (fst (snd (forward_locals ops st))) =
     fst ((spec_step ops (weight_mat st) (eps st) ^^
            (if training st then n_power_iterations st else 0)) (u st, v st)) \<and>
   read_ref (fst (forward_locals ops st)) (snd (snd (forward_locals ops st))) =
     snd ((spec_step ops (weight_mat st) (eps st) ^^
            (if training st then n_power_iterations st else 0)) (u st, v st)) \<and>
   weight_mat (fst (forward_locals ops st)) = weight_mat st \<and>
   permuted_shape (fst (forward_locals ops st)) = permuted_shape st \<and>
   dim (fst (forward_locals ops st)) = dim st"
proof (cases "training st")
  case False
  then show ?thesis by (simp add: forward_locals_def)
next
  case True
  show ?thesis
  proof (cases "n_power_iterations st")
    case 0
    with True show ?thesis by (simp add: forward_locals_def)
  next
    case (Suc k)
    with True show ?thesis
      by (simp add: forward_locals_def power_loop_buffers del: power_loop.simps funpow.simps)
  qed
qed

text \<open>
  Claim C4: \<^verbatim>\<open>forward\<close> computes \<^verbatim>\<open>sigma\<close> as \<open>u\<^sup>T (A v)\<close> from the vectors that
  result from iterating the step on the stored \<open>u\<close> and \<open>v\<close> (\<^verbatim>\<open>n_power_iterations\<close>
  times in training mode, not at all otherwise), and returns the stored matrix divided
  by that \<^verbatim>\<open>sigma\<close>, reshaped. One step on \<open>(u, v)\<close> first sets \<open>v\<close> to the
  normalisation with \<open>eps\<close> of \<open>A\<^sup>T u\<close> and then \<open>u\<close> to the normalisation with
  \<open>eps\<close> of \<open>A v\<close> for that new \<open>v\<close>.
\<close>

theorem forward_is_power_iteration:
  "forward_sigma ops st =
     spec_sigma ops (weight_mat st)
       ((spec_step ops (weight_mat st) (eps st) ^^
           (if training st then n_power_iterations st else 0)) (u st, v st)) \<and>
   fst (forward ops st) =
     (if dim st \<noteq> 0 then transpose_dims ops 0 (dim st) else (\<lambda>W. W))
       (view ops (permuted_shape st) (div_scalar ops (weight_mat st) (forward_sigma ops st))) \<and>
   spec_step ops A e (x, y) =
     (normalize_vec ops e (mv ops A (normalize_vec ops e (mv ops (t_mat ops A) x))),
      normalize_vec ops e (mv ops (t_mat ops A) x))"
proof -
  obtain st' lu lv where L: "forward_locals ops st = (st', lu, lv)"
    by (cases "forward_locals ops st")
  with forward_locals_values[of ops st]
  have vals: "read_ref st' lu =
      fst ((spec_step ops (weight_mat st) (eps st) ^^
            (if training st then n_power_iterations st else 0)) (u st, v st))"
    "read_ref st' lv =
      snd ((spec_step ops (weight_mat st) (eps st) ^^
            (if training st then n_power_iterations st else 0)) (u st, v st))"
    "weight_mat st' = weight_mat st" "permuted_shape st' = permuted_shape st" "dim st' = dim st"
    by simp_all
  have sig: "forward_sigma ops st =
     spec_sigma ops (weight_mat st)
       ((spec_step ops (weight_mat st) (eps st) ^^
           (if training st then n_power_iterations st else 0)) (u st, v st))"
    by (simp only: forward_sigma_def L prod.case vals spec_sigma_def)
  have "fst (forward ops st) =
     (if dim st \<noteq> 0 then transpose_dims ops 0 (dim st) else (\<lambda>W. W))
       (view ops (permuted_shape st) (div_scalar ops (weight_mat st) (forward_sigma ops st)))"
    by (simp add: forward_def forward_sigma_def L vals Let_def)
  moreover have "spec_step ops A e (x, y) =
     (normalize_vec ops e (mv ops A (normalize_vec ops e (mv ops (t_mat ops A) x))),
      normalize_vec ops e (mv ops (t_mat ops A) x))"
    by (simp add: spec_step_def Let_def)
  ultimately show ?thesis using sig by simp
qed

theorem forward_is_power_iteration_witness:
  "forward_sigma real_ops (demo_snw [[2, 0], [0, 1]] 1 True) = 2 \<and>
   fst (forward real_ops (demo_snw [[2, 0], [0, 1]] 1 True)) = [[1, 0], [0, 1 / 2]]"
proof -
  let ?st = "demo_snw [[2, 0], [0, 1]] 1 True"
  have f: "training ?st = True" "n_power_iterations ?st = 1" "weight_mat ?st = [[2, 0], [0, 1]]"
    "u ?st = [1, 0]" "v ?st = [1, 0]" "dim ?st = 0" "permuted_shape ?st = [2, 2]"
    "eps ?st = 1 / 10 ^ 12"
    by (simp_all add: demo_snw_def)
  have n: "l2norm [2, 0] = 2"
    by (simp add: l2norm_def)
  have p: "spec_step real_ops [[2, 0], [0, 1]] (1 / 10 ^ 12) ([1, 0], [1, 0]) = ([1, 0], [1, 0])"
    by (simp add: spec_step_def real_ops_def n Let_def)
  have s: "spec_sigma real_ops [[2, 0], [0, 1]] ([1, 0], [1, 0]) = 2"
    by (simp add: spec_sigma_def real_ops_def)
  have one: "(F ^^ (1::nat)) x = F x" for F :: "'z \<Rightarrow> 'z" and x
    by simp
  have a: "forward_sigma real_ops ?st = 2"
    using forward_is_power_iteration[of real_ops ?st]
    by (simp only: f if_True one p s)
  have "fst (forward real_ops ?st) = view real_ops [2, 2] (div_scalar real_ops [[2, 0], [0, 1]] 2)"
    using forward_is_power_iteration[of real_ops ?st]
    by (simp only: f a if_False refl simp_thms)
  then show ?thesis using a by (simp add: real_ops_def)
qed

lemma forward_module: "snd (forward ops st) = fst (forward_locals ops st)"
  by (simp add: forward_def Let_def split: prod.splits)



lemma forward_training_buffers:
  "training st \<Longrightarrow> n_power_iterations st = Suc k \<Longrightarrow>
   snd (forward ops st) =
     st\<lparr>v := snd (spec_step ops (weight_mat st) (eps st) (u st, v st)),
        u := fst (spec_step ops (weight_mat st) (eps st) (u st, v st))\<rparr>"
  by (simp add: forward_module forward_locals_def power_loop_buffers del: power_loop.simps funpow.simps)

lemma forward_training_once:
  "training st \<Longrightarrow> n_power_iterations st = 1 \<Longrightarrow>
   u (snd (forward ops st)) = read_ref (fst (forward_locals ops st)) (fst (snd (forward_locals ops st))) \<and>
   v (snd (forward ops st)) = read_ref (fst (forward_locals ops st)) (snd (snd (forward_locals ops st)))"
  using forward_training_buffers[of st 0 ops] forward_locals_values[of ops st]
  by simp


lemma normalize_real_pair:
  assumes "0 < e"
  obtains g where "0 < g" and "normalize_vec real_ops e [a, b] = [a / g, b / g]"
proof
  show "0 < max (l2norm [a, b]) e" using assms by simp
  show "normalize_vec real_ops e [a, b] = [a / max (l2norm [a, b]) e, b / max (l2norm [a, b]) e]"
    by (simp add: real_ops_def)
qed

lemma demo_mv_t: "mv real_ops (t_mat real_ops [[1, 1], [0, 1]]) [a, b] = [a, a + b]"
  by (simp add: real_ops_def)

lemma demo_mv: "mv real_ops [[1, 1], [0, 1]] [a, b] = [a + b, b]"
  by (simp add: real_ops_def)

lemma demo_two_steps_differ:
  assumes "0 < e"
  shows "snd (spec_step real_ops [[1, 1], [0, 1]] e
               (spec_step real_ops [[1, 1], [0, 1]] e ([1, 0], y))) \<noteq>
         snd (spec_step real_ops [[1, 1], [0, 1]] e ([1, 0], y))"
proof -
  let ?A = "[[1, 1], [0, 1]] :: real list list"
  have step: "spec_step real_ops ?A e ([a, b], z) =
      (normalize_vec real_ops e (mv real_ops ?A (normalize_vec real_ops e [a, a + b])),
       normalize_vec real_ops e [a, a + b])" for a b z
    by (simp only: spec_step_def Let_def fst_conv demo_mv_t)
  obtain g1 where g1: "0 < g1"
    and v1: "normalize_vec real_ops e [1, 1 + 0] = [1 / g1, (1 + 0) / g1]"
    using normalize_real_pair[OF assms, of 1 "1 + 0"] by blast
  define c where "c = 1 / g1"
  have c: "0 < c" using g1 by (simp add: c_def)
  have v1': "normalize_vec real_ops e [1, 1 + 0] = [c, c]"
    using v1 by (simp add: c_def)
  obtain g2 where g2: "0 < g2"
    and u1: "normalize_vec real_ops e [c + c, c] = [(c + c) / g2, c / g2]"
    using normalize_real_pair[OF assms, of "c + c" c] by blast
  define d where "d = c / g2"
  have d: "0 < d" using c g2 by (simp add: d_def)
  have u1': "normalize_vec real_ops e [c + c, c] = [d + d, d]"
    using u1 by (simp add: d_def add_divide_distrib)
  have s1: "spec_step real_ops ?A e ([1, 0], y) = ([d + d, d], [c, c])"
    by (simp only: step v1' demo_mv u1')
  obtain g3 where g3: "0 < g3"
    and v2: "normalize_vec real_ops e [d + d, d + d + d] = [(d + d) / g3, (d + d + d) / g3]"
    using normalize_real_pair[OF assms, of "d + d" "d + d + d"] by blast
  have s2: "snd (spec_step real_ops ?A e ([d + d, d], [c, c])) = [(d + d) / g3, (d + d + d) / g3]"
    by (simp only: step snd_conv v2)
  have "[(d + d) / g3, (d + d + d) / g3] \<noteq> [c, c]"
  proof
    assume "[(d + d) / g3, (d + d + d) / g3] = [c, c]"
    then have "(d + d) / g3 = (d + d + d) / g3" by simp
    with g3 have "d + d = d + d + d" by simp
    with d show False by simp
  qed
  then show ?thesis unfolding s1 s2 snd_conv .
qed

text \<open>
  Claim C9, on the code: a module in training mode with \<^verbatim>\<open>n_power_iterations = 2\<close>.
  After \<^verbatim>\<open>forward\<close> the buffer \<open>v\<close> holds the vector of the first iteration, the
  vector \<^verbatim>\<open>sigma\<close> was computed from is that of the second, and the two differ:
  the second iteration wrote into the clone made at the end of the first, not into
  the buffer.
\<close>

theorem forward_twice_iterated_buffers_differ:
  "training (demo_snw [[1, 1], [0, 1]] 2 True) \<and> n_power_iterations (demo_snw [[1, 1], [0, 1]] 2 True) = 2 \<and>
   v (snd (forward real_ops (demo_snw [[1, 1], [0, 1]] 2 True))) =
     snd (spec_step real_ops [[1, 1], [0, 1]] (1 / 10 ^ 12) ([1, 0], [1, 0])) \<and>
   read_ref (fst (forward_locals real_ops (demo_snw [[1, 1], [0, 1]] 2 True)))
            (snd (snd (forward_locals real_ops (demo_snw [[1, 1], [0, 1]] 2 True)))) =
     snd (spec_step real_ops [[1, 1], [0, 1]] (1 / 10 ^ 12)
           (spec_step real_ops [[1, 1], [0, 1]] (1 / 10 ^ 12) ([1, 0], [1, 0]))) \<and>
   v (snd (forward real_ops (demo_snw [[1, 1], [0, 1]] 2 True))) \<noteq>
     read_ref (fst (forward_locals real_ops (demo_snw [[1, 1], [0, 1]] 2 True)))
              (snd (snd (forward_locals real_ops (demo_snw [[1, 1], [0, 1]] 2 True))))"
proof -
  let ?st = "demo_snw [[1, 1], [0, 1]] 2 True"
  have tr: "training ?st" and n: "n_power_iterations ?st = 2"
    and n': "n_power_iterations ?st = Suc 1"
    by (simp_all add: demo_snw_def)
  have f: "weight_mat ?st = [[1, 1], [0, 1]]"
    "eps ?st = 1 / 10 ^ 12" "u ?st = [1, 0]" "v ?st = [1, 0]"
    by (simp_all add: demo_snw_def)
  have two: "(F ^^ (2::nat)) x = F (F x)" for F :: "'z \<Rightarrow> 'z" and x
    by (simp add: numeral_2_eq_2)
  have buf: "v (snd (forward real_ops ?st)) =
      snd (spec_step real_ops [[1, 1], [0, 1]] (1 / 10 ^ 12) ([1, 0], [1, 0]))"
    using forward_training_buffers[OF tr n', of real_ops] by (simp add: f)
  have loc: "read_ref (fst (forward_locals real_ops ?st)) (snd (snd (forward_locals real_ops ?st))) =
      snd (spec_step real_ops [[1, 1], [0, 1]] (1 / 10 ^ 12)
            (spec_step real_ops [[1, 1], [0, 1]] (1 / 10 ^ 12) ([1, 0], [1, 0])))"
    using forward_locals_values[of real_ops ?st] by (simp only: tr n f two if_True)
  have "(0::real) < 1 / 10 ^ 12" by simp
  from demo_two_steps_differ[OF this, of "[1, 0]"]
  have "snd (spec_step real_ops [[1, 1], [0, 1]] (1 / 10 ^ 12)
               (spec_step real_ops [[1, 1], [0, 1]] (1 / 10 ^ 12) ([1, 0], [1, 0]))) \<noteq>
        snd (spec_step real_ops [[1, 1], [0, 1]] (1 / 10 ^ 12) ([1, 0], [1, 0]))" .
  then have "v (snd (forward real_ops ?st)) \<noteq>
     read_ref (fst (forward_locals real_ops ?st)) (snd (snd (forward_locals real_ops ?st)))"
    unfolding buf loc by (rule not_sym)
  with tr n buf loc show ?thesis by (simp only: simp_thms)
qed

section \<open>What the operations write\<close>













end
